theory Spec2Isabelle
  imports Main "HOL-Library.Word"
begin

unbundle bit_operations_syntax

section \<open>EasyI2C: a register-oriented helper over an I2C driver\<close>

text \<open>
  The development embeds \<^verbatim>\<open>src/easy_i2c.py\<close>. The class \<^verbatim>\<open>EasyI2C\<close> owns one
  driver object \<^verbatim>\<open>self.i2c\<close> (MicroPython's \<^verbatim>\<open>machine.I2C\<close>) and forwards to
  five of its methods after checking arguments. The driver is outside the repository:
  it is a parameter of every operation below.
\<close>

subsection \<open>Python values and exceptions\<close>

type_synonym byte = "8 word"

text \<open>
  The fragment of Python objects that can reach the \<^verbatim>\<open>data\<close> parameter of
  \<^verbatim>\<open>write_bytes\<close> and \<^verbatim>\<open>write_direct\<close>: integers, \<^verbatim>\<open>bytes\<close>, lists (of
  any objects), strings and \<^verbatim>\<open>None\<close>.
\<close>

datatype pyobj =
    PInt int
  | PBytes "byte list"
  | PList "pyobj list"
  | PStr string
  | PNone

text \<open>
  Every \<^verbatim>\<open>ValueError\<close> of the module carries a fixed message (in Russian in the
  source); the tag stands for the message:
  \<^item> \<open>AddrRange\<close>: line 42, "device address must be in the range 0-127";
  \<^item> \<open>ByteRange\<close>: line 54, "value must be in the range 0-255";
  \<^item> \<open>WordRange\<close>: line 87, "value must be in the range 0-65535";
  \<^item> \<open>DataKind\<close>: lines 130 and 164, "data must be bytes or list";
  \<^item> \<open>BytesItemRange\<close>: raised by the builtin \<^verbatim>\<open>bytes(...)\<close> for an item outside
    \<open>0..255\<close>.
\<close>

datatype msg = AddrRange | ByteRange | WordRange | DataKind | BytesItemRange

datatype exn =
    ValueError msg
  | TypeError
  | IndexError
  | OSError int

subsection \<open>The driver and the observable state\<close>

text \<open>One entry per method call on \<^verbatim>\<open>self.i2c\<close>, with the arguments as passed.\<close>

datatype call =
    Scan
  | WritetoMem int int "byte list"
  | ReadfromMem int int int
  | Writeto int "byte list"
  | Readfrom int int

text \<open>
  One entry per executed \<^verbatim>\<open>print\<close>, with the values formatted into the line:
  the three lines of \<^verbatim>\<open>scan\<close> and the diagnostic of each \<^verbatim>\<open>except OSError\<close> block.
\<close>

datatype line =
    FoundHeader
  | FoundAddr int
  | NotFound
  | WriteByteFailed int int
  | ReadByteFailed int int
  | WriteWordFailed int int
  | ReadWordFailed int int
  | WriteBytesFailed int int
  | ReadBytesFailed int int
  | WriteDirectFailed int
  | ReadDirectFailed int

record bus =
  calls :: "call list"
  stdout :: "line list"

text \<open>
  The driver: each method answers from the calls made so far and its arguments, either
  with \<open>Inl errno\<close> (it raises \<^verbatim>\<open>OSError(errno)\<close>) or with \<open>Inr\<close> its result.
\<close>

record driver =
  d_scan :: "call list \<Rightarrow> int + int list"
  d_writeto_mem :: "call list \<Rightarrow> int \<Rightarrow> int \<Rightarrow> byte list \<Rightarrow> int + unit"
  d_readfrom_mem :: "call list \<Rightarrow> int \<Rightarrow> int \<Rightarrow> int \<Rightarrow> int + byte list"
  d_writeto :: "call list \<Rightarrow> int \<Rightarrow> byte list \<Rightarrow> int + unit"
  d_readfrom :: "call list \<Rightarrow> int \<Rightarrow> int \<Rightarrow> int + byte list"

definition logged :: "call \<Rightarrow> bus \<Rightarrow> bus" where
  "logged c s = s\<lparr>calls := calls s @ [c]\<rparr>"

definition print :: "line \<Rightarrow> bus \<Rightarrow> bus" where
  "print l s = s\<lparr>stdout := stdout s @ [l]\<rparr>"

definition i2c_scan :: "driver \<Rightarrow> bus \<Rightarrow> (int + int list) \<times> bus" where
  "i2c_scan drv s = (d_scan drv (calls s), logged Scan s)"

definition i2c_writeto_mem ::
  "driver \<Rightarrow> int \<Rightarrow> int \<Rightarrow> byte list \<Rightarrow> bus \<Rightarrow> (int + unit) \<times> bus" where
  "i2c_writeto_mem drv a r bs s =
     (d_writeto_mem drv (calls s) a r bs, logged (WritetoMem a r bs) s)"

definition i2c_readfrom_mem ::
  "driver \<Rightarrow> int \<Rightarrow> int \<Rightarrow> int \<Rightarrow> bus \<Rightarrow> (int + byte list) \<times> bus" where
  "i2c_readfrom_mem drv a r n s =
     (d_readfrom_mem drv (calls s) a r n, logged (ReadfromMem a r n) s)"

definition i2c_writeto :: "driver \<Rightarrow> int \<Rightarrow> byte list \<Rightarrow> bus \<Rightarrow> (int + unit) \<times> bus" where
  "i2c_writeto drv a bs s = (d_writeto drv (calls s) a bs, logged (Writeto a bs) s)"

definition i2c_readfrom :: "driver \<Rightarrow> int \<Rightarrow> int \<Rightarrow> bus \<Rightarrow> (int + byte list) \<times> bus" where
  "i2c_readfrom drv a n s = (d_readfrom drv (calls s) a n, logged (Readfrom a n) s)"

subsection \<open>Builtins used by the module\<close>

text \<open>
  \<^verbatim>\<open>bytes(xs)\<close> on a list: the items are taken in order; an item that is not an
  integer raises \<^verbatim>\<open>TypeError\<close>, an integer outside \<open>0..255\<close> raises
  \<^verbatim>\<open>ValueError\<close>.
\<close>

fun py_bytes :: "pyobj list \<Rightarrow> exn + byte list" where
  "py_bytes [] = Inr []"
| "py_bytes (PInt i # xs) =
     (if 0 \<le> i \<and> i \<le> 255
      then (case py_bytes xs of Inl e \<Rightarrow> Inl e | Inr bs \<Rightarrow> Inr (word_of_int i # bs))
      else Inl (ValueError BytesItemRange))"
| "py_bytes (x # xs) = Inl TypeError"

text \<open>\<^verbatim>\<open>data[i]\<close> on \<^verbatim>\<open>bytes\<close>, for the indices \<open>0\<close> and \<open>1\<close> the module uses.\<close>

definition bytes_item :: "byte list \<Rightarrow> nat \<Rightarrow> exn + int" where
  "bytes_item bs i = (if i < length bs then Inr (uint (bs ! i)) else Inl IndexError)"

subsection \<open>The operations of \<^verbatim>\<open>EasyI2C\<close>\<close>

text \<open>\<^verbatim>\<open>scan\<close>, lines 22-37. A failure of the driver's scan is not caught.\<close>

definition scan :: "driver \<Rightarrow> bool \<Rightarrow> bus \<Rightarrow> (exn + int list) \<times> bus" where
  "scan drv verbose s =
     (case i2c_scan drv s of
        (Inl errno, s1) \<Rightarrow> (Inl (OSError errno), s1)
      | (Inr devices, s1) \<Rightarrow>
          (Inr devices,
           if verbose
           then (if devices \<noteq> []
                 then fold print (map FoundAddr devices) (print FoundHeader s1)
                 else print NotFound s1)
           else s1))"

text \<open>\<^verbatim>\<open>_check_addr\<close>, lines 39-42.\<close>

definition check_addr :: "int \<Rightarrow> exn + unit" where
  "check_addr device_addr =
     (if \<not> (0 \<le> device_addr \<and> device_addr \<le> 127)
      then Inl (ValueError AddrRange) else Inr ())"

text \<open>\<^verbatim>\<open>write_byte\<close>, lines 44-59.\<close>

definition write_byte :: "driver \<Rightarrow> int \<Rightarrow> int \<Rightarrow> int \<Rightarrow> bus \<Rightarrow> (exn + unit) \<times> bus" where
  "write_byte drv device_addr reg_addr val s =
     (case check_addr device_addr of
        Inl e \<Rightarrow> (Inl e, s)
      | Inr _ \<Rightarrow>
          if \<not> (0 \<le> val \<and> val \<le> 255) then (Inl (ValueError ByteRange), s)
          else
            (case py_bytes [PInt val] of
               Inl e \<Rightarrow> (Inl e, s)
             | Inr bs \<Rightarrow>
                 (case i2c_writeto_mem drv device_addr reg_addr bs s of
                    (Inl errno, s1) \<Rightarrow>
                      (Inl (OSError errno), print (WriteByteFailed device_addr reg_addr) s1)
                  | (Inr u, s1) \<Rightarrow> (Inr (), s1))))"

text \<open>\<^verbatim>\<open>read_byte\<close>, lines 61-74.\<close>

definition read_byte :: "driver \<Rightarrow> int \<Rightarrow> int \<Rightarrow> bus \<Rightarrow> (exn + int) \<times> bus" where
  "read_byte drv device_addr reg_addr s =
     (case check_addr device_addr of
        Inl e \<Rightarrow> (Inl e, s)
      | Inr _ \<Rightarrow>
          (case i2c_readfrom_mem drv device_addr reg_addr 1 s of
             (Inl errno, s1) \<Rightarrow>
               (Inl (OSError errno), print (ReadByteFailed device_addr reg_addr) s1)
           | (Inr bs, s1) \<Rightarrow> (bytes_item bs 0, s1)))"

text \<open>The packing of lines 88-91: the two items of \<^verbatim>\<open>data\<close> for a byte-order tag.\<close>

definition word_data :: "string \<Rightarrow> int \<Rightarrow> int list" where
  "word_data byteorder val =
     (if byteorder = ''big''
      then [drop_bit 8 val AND 0xFF, val AND 0xFF]
      else [val AND 0xFF, drop_bit 8 val AND 0xFF])"

text \<open>\<^verbatim>\<open>write_word\<close>, lines 76-96.\<close>

definition write_word ::
  "driver \<Rightarrow> int \<Rightarrow> int \<Rightarrow> int \<Rightarrow> string \<Rightarrow> bus \<Rightarrow> (exn + unit) \<times> bus" where
  "write_word drv device_addr reg_addr val byteorder s =
     (case check_addr device_addr of
        Inl e \<Rightarrow> (Inl e, s)
      | Inr _ \<Rightarrow>
          if \<not> (0 \<le> val \<and> val \<le> 65535) then (Inl (ValueError WordRange), s)
          else
            (case py_bytes (map PInt (word_data byteorder val)) of
               Inl e \<Rightarrow> (Inl e, s)
             | Inr bs \<Rightarrow>
                 (case i2c_writeto_mem drv device_addr reg_addr bs s of
                    (Inl errno, s1) \<Rightarrow>
                      (Inl (OSError errno), print (WriteWordFailed device_addr reg_addr) s1)
                  | (Inr u, s1) \<Rightarrow> (Inr (), s1))))"

text \<open>
  The unpacking of lines 110-113. Both items are read before they are combined, so fewer
  than two bytes raise \<^verbatim>\<open>IndexError\<close> under either tag.
\<close>

definition data_word :: "string \<Rightarrow> byte list \<Rightarrow> exn + int" where
  "data_word byteorder bs =
     (if byteorder = ''big''
      then (case bytes_item bs 0 of
              Inl e \<Rightarrow> Inl e
            | Inr b0 \<Rightarrow>
                (case bytes_item bs 1 of
                   Inl e \<Rightarrow> Inl e
                 | Inr b1 \<Rightarrow> Inr (push_bit 8 b0 OR b1)))
      else (case bytes_item bs 1 of
              Inl e \<Rightarrow> Inl e
            | Inr b1 \<Rightarrow>
                (case bytes_item bs 0 of
                   Inl e \<Rightarrow> Inl e
                 | Inr b0 \<Rightarrow> Inr (push_bit 8 b1 OR b0))))"

text \<open>
  \<^verbatim>\<open>read_word\<close>, lines 98-116. The \<^verbatim>\<open>except\<close> clause names \<^verbatim>\<open>OSError\<close> only: an
  \<^verbatim>\<open>IndexError\<close> of the unpacking leaves without a diagnostic.
\<close>

definition read_word ::
  "driver \<Rightarrow> int \<Rightarrow> int \<Rightarrow> string \<Rightarrow> bus \<Rightarrow> (exn + int) \<times> bus" where
  "read_word drv device_addr reg_addr byteorder s =
     (case check_addr device_addr of
        Inl e \<Rightarrow> (Inl e, s)
      | Inr _ \<Rightarrow>
          (case i2c_readfrom_mem drv device_addr reg_addr 2 s of
             (Inl errno, s1) \<Rightarrow>
               (Inl (OSError errno), print (ReadWordFailed device_addr reg_addr) s1)
           | (Inr bs, s1) \<Rightarrow> (data_word byteorder bs, s1)))"

text \<open>
  The conversion of lines 127-130 and 161-164: a list goes through \<^verbatim>\<open>bytes(data)\<close>,
  \<^verbatim>\<open>bytes\<close> pass, anything else raises the module's \<^verbatim>\<open>ValueError\<close>.
\<close>

definition as_bytes :: "pyobj \<Rightarrow> exn + byte list" where
  "as_bytes data =
     (case data of
        PList xs \<Rightarrow> py_bytes xs
      | PBytes bs \<Rightarrow> Inr bs
      | _ \<Rightarrow> Inl (ValueError DataKind))"

text \<open>\<^verbatim>\<open>write_bytes\<close>, lines 118-135.\<close>

definition write_bytes :: "driver \<Rightarrow> int \<Rightarrow> int \<Rightarrow> pyobj \<Rightarrow> bus \<Rightarrow> (exn + unit) \<times> bus" where
  "write_bytes drv device_addr reg_addr data s =
     (case check_addr device_addr of
        Inl e \<Rightarrow> (Inl e, s)
      | Inr _ \<Rightarrow>
          (case as_bytes data of
             Inl e \<Rightarrow> (Inl e, s)
           | Inr bs \<Rightarrow>
               (case i2c_writeto_mem drv device_addr reg_addr bs s of
                  (Inl errno, s1) \<Rightarrow>
                    (Inl (OSError errno), print (WriteBytesFailed device_addr reg_addr) s1)
                | (Inr u, s1) \<Rightarrow> (Inr (), s1))))"

text \<open>\<^verbatim>\<open>read_bytes\<close>, lines 137-151.\<close>

definition read_bytes ::
  "driver \<Rightarrow> int \<Rightarrow> int \<Rightarrow> int \<Rightarrow> bus \<Rightarrow> (exn + byte list) \<times> bus" where
  "read_bytes drv device_addr reg_addr nbytes s =
     (case check_addr device_addr of
        Inl e \<Rightarrow> (Inl e, s)
      | Inr _ \<Rightarrow>
          (case i2c_readfrom_mem drv device_addr reg_addr nbytes s of
             (Inl errno, s1) \<Rightarrow>
               (Inl (OSError errno), print (ReadBytesFailed device_addr reg_addr) s1)
           | (Inr bs, s1) \<Rightarrow> (Inr bs, s1)))"

text \<open>\<^verbatim>\<open>write_direct\<close>, lines 153-169.\<close>

definition write_direct :: "driver \<Rightarrow> int \<Rightarrow> pyobj \<Rightarrow> bus \<Rightarrow> (exn + unit) \<times> bus" where
  "write_direct drv device_addr data s =
     (case check_addr device_addr of
        Inl e \<Rightarrow> (Inl e, s)
      | Inr _ \<Rightarrow>
          (case as_bytes data of
             Inl e \<Rightarrow> (Inl e, s)
           | Inr bs \<Rightarrow>
               (case i2c_writeto drv device_addr bs s of
                  (Inl errno, s1) \<Rightarrow>
                    (Inl (OSError errno), print (WriteDirectFailed device_addr) s1)
                | (Inr u, s1) \<Rightarrow> (Inr (), s1))))"

text \<open>\<^verbatim>\<open>read_direct\<close>, lines 171-184.\<close>

definition read_direct :: "driver \<Rightarrow> int \<Rightarrow> int \<Rightarrow> bus \<Rightarrow> (exn + byte list) \<times> bus" where
  "read_direct drv device_addr nbytes s =
     (case check_addr device_addr of
        Inl e \<Rightarrow> (Inl e, s)
      | Inr _ \<Rightarrow>
          (case i2c_readfrom drv device_addr nbytes s of
             (Inl errno, s1) \<Rightarrow>
               (Inl (OSError errno), print (ReadDirectFailed device_addr) s1)
           | (Inr bs, s1) \<Rightarrow> (Inr bs, s1)))"

subsection \<open>Driver doubles\<close>

text \<open>
  Two concrete drivers on which the theorems are run.
  \<open>echo_drv\<close> finds devices at \<open>0x3C\<close> and \<open>0x40\<close>, acknowledges every write and
  answers a read with the payload of the latest write to the same target (to the same
  device and register for a register read), or with \<^verbatim>\<open>OSError(19)\<close> when there is
  none. \<open>dead_drv\<close> fails every call with \<^verbatim>\<open>OSError(19)\<close>.
\<close>

fun last_mem :: "call list \<Rightarrow> int \<Rightarrow> int \<Rightarrow> int + byte list" where
  "last_mem [] a r = Inl 19"
| "last_mem (WritetoMem a' r' bs # cs) a r =
     (if a' = a \<and> r' = r then Inr bs else last_mem cs a r)"
| "last_mem (c # cs) a r = last_mem cs a r"

fun last_direct :: "call list \<Rightarrow> int \<Rightarrow> int + byte list" where
  "last_direct [] a = Inl 19"
| "last_direct (Writeto a' bs # cs) a = (if a' = a then Inr bs else last_direct cs a)"
| "last_direct (c # cs) a = last_direct cs a"

definition echo_drv :: driver where
  "echo_drv =
     \<lparr>d_scan = (\<lambda>h. Inr [0x3C, 0x40]),
      d_writeto_mem = (\<lambda>h a r bs. Inr ()),
      d_readfrom_mem = (\<lambda>h a r n. last_mem (rev h) a r),
      d_writeto = (\<lambda>h a bs. Inr ()),
      d_readfrom = (\<lambda>h a n. last_direct (rev h) a)\<rparr>"

definition dead_drv :: driver where
  "dead_drv =
     \<lparr>d_scan = (\<lambda>h. Inl 19),
      d_writeto_mem = (\<lambda>h a r bs. Inl 19),
      d_readfrom_mem = (\<lambda>h a r n. Inl 19),
      d_writeto = (\<lambda>h a bs. Inl 19),
      d_readfrom = (\<lambda>h a n. Inl 19)\<rparr>"

definition idle :: bus where
  "idle = \<lparr>calls = [], stdout = []\<rparr>"

section \<open>Basic facts\<close>

subsection \<open>Checks and conversions\<close>

lemma check_addr_bad: "\<not> (0 \<le> a \<and> a \<le> 127) \<Longrightarrow> check_addr a = Inl (ValueError AddrRange)"
  by (simp add: check_addr_def)

lemma check_addr_good: "0 \<le> a \<Longrightarrow> a \<le> 127 \<Longrightarrow> check_addr a = Inr ()"
  by (simp add: check_addr_def)

lemma py_bytes_msg:
  "py_bytes xs = Inl e \<Longrightarrow> e = TypeError \<or> e = ValueError BytesItemRange"
  by (induction xs rule: py_bytes.induct) (auto split: if_splits sum.splits)

lemma as_bytes_msg:
  "as_bytes d = Inl e \<Longrightarrow> e = TypeError \<or> e = ValueError BytesItemRange \<or> e = ValueError DataKind"
  by (auto simp: as_bytes_def split: pyobj.splits dest: py_bytes_msg)

lemma bytes_item_msg: "bytes_item bs i = Inl e \<Longrightarrow> e = IndexError"
  by (auto simp: bytes_item_def split: if_splits)

lemma data_word_msg: "data_word bo bs = Inl e \<Longrightarrow> e = IndexError"
  by (auto simp: data_word_def split: if_splits sum.splits dest: bytes_item_msg)

lemma py_bytes_ints:
  "list_all (\<lambda>i. 0 \<le> i \<and> i \<le> 255) ns \<Longrightarrow> py_bytes (map PInt ns @ xs) =
     (case py_bytes xs of Inl e \<Rightarrow> Inl e | Inr bs \<Rightarrow> Inr (map word_of_int ns @ bs))"
  by (induction ns) (simp_all split: sum.splits)

lemma py_bytes_not_int: "\<forall>i. x \<noteq> PInt i \<Longrightarrow> py_bytes (x # ys) = Inl TypeError"
  by (cases x) simp_all

lemma uint_byte_ints:
  "list_all (\<lambda>i. 0 \<le> i \<and> i \<le> 255) ns \<Longrightarrow> map uint (map word_of_int ns :: byte list) = ns"
  by (induction ns) (simp_all add: uint_word_of_int_eq take_bit_int_eq_self)

subsection \<open>Word packing\<close>

lemma and_255_range: "0 \<le> (x::int) AND 0xFF \<and> x AND 0xFF \<le> 255"
  by (simp add: AND_upper2')

lemma and_255_take: "(x::int) AND 0xFF = take_bit 8 x"
  by (simp add: take_bit_eq_mask mask_eq_exp_minus_1)

lemma uint_byte_and: "uint (word_of_int (x AND 0xFF) :: byte) = x AND 0xFF"
  by (simp add: and_255_take uint_word_of_int_eq)

lemma word_join:
  assumes "0 \<le> v" and "v \<le> 65535"
  shows "push_bit 8 (drop_bit 8 v AND 0xFF) OR (v AND 0xFF) = (v::int)"
proof -
  have v: "take_bit 16 v = v"
    using assms by (simp add: take_bit_int_eq_self)
  have "bit (push_bit 8 (take_bit 8 (drop_bit 8 v)) OR take_bit 8 v) n = bit (take_bit 16 v) n" for n
    by (auto simp: bit_simps)
  then show ?thesis
    unfolding and_255_take v by (rule bit_eqI)
qed

lemma py_bytes_pair:
  "py_bytes [PInt (x AND 0xFF), PInt (y AND 0xFF)] =
     Inr [word_of_int (x AND 0xFF), word_of_int (y AND 0xFF)]"
  by (simp add: and_255_range)

lemma py_bytes_word_data:
  "py_bytes (map PInt (word_data bo v)) =
     Inr (map word_of_int (word_data bo v))"
  by (simp add: word_data_def py_bytes_pair)

lemma uint_word_data: "map uint (map word_of_int (word_data bo v) :: byte list) = word_data bo v"
  by (simp add: word_data_def uint_byte_and)

lemma data_word_word_data:
  assumes "0 \<le> v" and "v \<le> 65535"
  shows "data_word bo (map word_of_int (word_data bo v)) = Inr v"
  using word_join [OF assms]
  by (simp add: data_word_def word_data_def bytes_item_def uint_byte_and)

subsection \<open>The call log and the printed lines\<close>

lemma calls_print [simp]: "calls (print l s) = calls s"
  by (simp add: print_def)

lemma calls_logged [simp]: "calls (logged c s) = calls s @ [c]"
  by (simp add: logged_def)

lemma stdout_logged [simp]: "stdout (logged c s) = stdout s"
  by (simp add: logged_def)

lemma stdout_print [simp]: "stdout (print l s) = stdout s @ [l]"
  by (simp add: print_def)

lemma calls_fold_print [simp]: "calls (fold print ls s) = calls s"
  by (induction ls arbitrary: s) simp_all

lemma stdout_fold_print [simp]: "stdout (fold print ls s) = stdout s @ ls"
  by (induction ls arbitrary: s) simp_all

lemma print_logged: "print l (logged c s) = s\<lparr>calls := calls s @ [c], stdout := stdout s @ [l]\<rparr>"
  by (simp add: print_def logged_def)

lemma logged_eq: "logged c s = s\<lparr>calls := calls s @ [c]\<rparr>"
  by (simp add: logged_def)

subsection \<open>The operations on arguments that pass the checks\<close>

lemma write_byte_valid:
  assumes "0 \<le> a" and "a \<le> 127" and "0 \<le> v" and "v \<le> 255"
  shows "write_byte drv a r v s =
     (case d_writeto_mem drv (calls s) a r [word_of_int v] of
        Inl errno \<Rightarrow> (Inl (OSError errno),
           print (WriteByteFailed a r) (logged (WritetoMem a r [word_of_int v]) s))
      | Inr u \<Rightarrow> (Inr (), logged (WritetoMem a r [word_of_int v]) s))"
  using assms
  by (simp add: write_byte_def check_addr_good i2c_writeto_mem_def split: sum.splits)

lemma read_byte_valid:
  assumes "0 \<le> a" and "a \<le> 127"
  shows "read_byte drv a r s =
     (case d_readfrom_mem drv (calls s) a r 1 of
        Inl errno \<Rightarrow> (Inl (OSError errno),
           print (ReadByteFailed a r) (logged (ReadfromMem a r 1) s))
      | Inr bs \<Rightarrow> (bytes_item bs 0, logged (ReadfromMem a r 1) s))"
  using assms
  by (simp add: read_byte_def check_addr_good i2c_readfrom_mem_def split: sum.splits)

lemma write_word_valid:
  assumes "0 \<le> a" and "a \<le> 127" and "0 \<le> v" and "v \<le> 65535"
  shows "write_word drv a r v bo s =
     (case d_writeto_mem drv (calls s) a r (map word_of_int (word_data bo v)) of
        Inl errno \<Rightarrow> (Inl (OSError errno),
           print (WriteWordFailed a r) (logged (WritetoMem a r (map word_of_int (word_data bo v))) s))
      | Inr u \<Rightarrow> (Inr (), logged (WritetoMem a r (map word_of_int (word_data bo v))) s))"
  using assms
  by (simp add: write_word_def check_addr_good py_bytes_word_data i2c_writeto_mem_def
      split: sum.splits)

lemma read_word_valid:
  assumes "0 \<le> a" and "a \<le> 127"
  shows "read_word drv a r bo s =
     (case d_readfrom_mem drv (calls s) a r 2 of
        Inl errno \<Rightarrow> (Inl (OSError errno),
           print (ReadWordFailed a r) (logged (ReadfromMem a r 2) s))
      | Inr bs \<Rightarrow> (data_word bo bs, logged (ReadfromMem a r 2) s))"
  using assms
  by (simp add: read_word_def check_addr_good i2c_readfrom_mem_def split: sum.splits)

lemma write_bytes_valid:
  assumes "0 \<le> a" and "a \<le> 127" and "as_bytes data = Inr bs"
  shows "write_bytes drv a r data s =
     (case d_writeto_mem drv (calls s) a r bs of
        Inl errno \<Rightarrow> (Inl (OSError errno),
           print (WriteBytesFailed a r) (logged (WritetoMem a r bs) s))
      | Inr u \<Rightarrow> (Inr (), logged (WritetoMem a r bs) s))"
  using assms
  by (simp add: write_bytes_def check_addr_good i2c_writeto_mem_def split: sum.splits)

lemma read_bytes_valid:
  assumes "0 \<le> a" and "a \<le> 127"
  shows "read_bytes drv a r n s =
     (case d_readfrom_mem drv (calls s) a r n of
        Inl errno \<Rightarrow> (Inl (OSError errno),
           print (ReadBytesFailed a r) (logged (ReadfromMem a r n) s))
      | Inr bs \<Rightarrow> (Inr bs, logged (ReadfromMem a r n) s))"
  using assms
  by (simp add: read_bytes_def check_addr_good i2c_readfrom_mem_def split: sum.splits)

lemma write_direct_valid:
  assumes "0 \<le> a" and "a \<le> 127" and "as_bytes data = Inr bs"
  shows "write_direct drv a data s =
     (case d_writeto drv (calls s) a bs of
        Inl errno \<Rightarrow> (Inl (OSError errno),
           print (WriteDirectFailed a) (logged (Writeto a bs) s))
      | Inr u \<Rightarrow> (Inr (), logged (Writeto a bs) s))"
  using assms
  by (simp add: write_direct_def check_addr_good i2c_writeto_def split: sum.splits)

lemma read_direct_valid:
  assumes "0 \<le> a" and "a \<le> 127"
  shows "read_direct drv a n s =
     (case d_readfrom drv (calls s) a n of
        Inl errno \<Rightarrow> (Inl (OSError errno),
           print (ReadDirectFailed a) (logged (Readfrom a n) s))
      | Inr bs \<Rightarrow> (Inr bs, logged (Readfrom a n) s))"
  using assms
  by (simp add: read_direct_def check_addr_good i2c_readfrom_def split: sum.splits)

lemma write_bad_data:
  assumes "0 \<le> a" and "a \<le> 127" and "as_bytes data = Inl e"
  shows "write_bytes drv a r data s = (Inl e, s)" and "write_direct drv a data s = (Inl e, s)"
  using assms by (simp_all add: write_bytes_def write_direct_def check_addr_good)

section \<open>Device-address validation\<close>

text \<open>
  Claim C1. Each of the eight operations that take a device address checks it first: for
  an address outside \<open>0..127\<close> the operation raises the \<^verbatim>\<open>ValueError\<close> of
  \<^verbatim>\<open>_check_addr\<close> and leaves the bus as it was (no driver method has been called,
  nothing has been printed); for an address inside \<open>0..127\<close> no operation raises that
  error.
\<close>

theorem device_address_validation:
  "(\<not> (0 \<le> a \<and> a \<le> 127) \<longrightarrow>
      write_byte drv a r v s = (Inl (ValueError AddrRange), s) \<and>
      read_byte drv a r s = (Inl (ValueError AddrRange), s) \<and>
      write_word drv a r v bo s = (Inl (ValueError AddrRange), s) \<and>
      read_word drv a r bo s = (Inl (ValueError AddrRange), s) \<and>
      write_bytes drv a r d s = (Inl (ValueError AddrRange), s) \<and>
      read_bytes drv a r n s = (Inl (ValueError AddrRange), s) \<and>
      write_direct drv a d s = (Inl (ValueError AddrRange), s) \<and>
      read_direct drv a n s = (Inl (ValueError AddrRange), s)) \<and>
   (0 \<le> a \<and> a \<le> 127 \<longrightarrow>
      fst (write_byte drv a r v s) \<noteq> Inl (ValueError AddrRange) \<and>
      fst (read_byte drv a r s) \<noteq> Inl (ValueError AddrRange) \<and>
      fst (write_word drv a r v bo s) \<noteq> Inl (ValueError AddrRange) \<and>
      fst (read_word drv a r bo s) \<noteq> Inl (ValueError AddrRange) \<and>
      fst (write_bytes drv a r d s) \<noteq> Inl (ValueError AddrRange) \<and>
      fst (read_bytes drv a r n s) \<noteq> Inl (ValueError AddrRange) \<and>
      fst (write_direct drv a d s) \<noteq> Inl (ValueError AddrRange) \<and>
      fst (read_direct drv a n s) \<noteq> Inl (ValueError AddrRange))"
proof (intro conjI impI)
  assume bad: "\<not> (0 \<le> a \<and> a \<le> 127)"
  show "write_byte drv a r v s = (Inl (ValueError AddrRange), s)"
    by (simp add: write_byte_def check_addr_bad [OF bad])
  show "read_byte drv a r s = (Inl (ValueError AddrRange), s)"
    by (simp add: read_byte_def check_addr_bad [OF bad])
  show "write_word drv a r v bo s = (Inl (ValueError AddrRange), s)"
    by (simp add: write_word_def check_addr_bad [OF bad])
  show "read_word drv a r bo s = (Inl (ValueError AddrRange), s)"
    by (simp add: read_word_def check_addr_bad [OF bad])
  show "write_bytes drv a r d s = (Inl (ValueError AddrRange), s)"
    by (simp add: write_bytes_def check_addr_bad [OF bad])
  show "read_bytes drv a r n s = (Inl (ValueError AddrRange), s)"
    by (simp add: read_bytes_def check_addr_bad [OF bad])
  show "write_direct drv a d s = (Inl (ValueError AddrRange), s)"
    by (simp add: write_direct_def check_addr_bad [OF bad])
  show "read_direct drv a n s = (Inl (ValueError AddrRange), s)"
    by (simp add: read_direct_def check_addr_bad [OF bad])
next
  assume "0 \<le> a \<and> a \<le> 127"
  then have ok: "check_addr a = Inr ()" by (simp add: check_addr_good)
  show "fst (write_byte drv a r v s) \<noteq> Inl (ValueError AddrRange)"
    by (auto simp: write_byte_def ok split: sum.splits prod.splits if_splits)
  show "fst (read_byte drv a r s) \<noteq> Inl (ValueError AddrRange)"
    by (auto simp: read_byte_def ok split: sum.splits prod.splits dest: bytes_item_msg)
  show "fst (write_word drv a r v bo s) \<noteq> Inl (ValueError AddrRange)"
    by (auto simp: write_word_def ok split: sum.splits prod.splits dest: py_bytes_msg)
  show "fst (read_word drv a r bo s) \<noteq> Inl (ValueError AddrRange)"
    by (auto simp: read_word_def ok split: sum.splits prod.splits dest: data_word_msg)
  show "fst (write_bytes drv a r d s) \<noteq> Inl (ValueError AddrRange)"
    by (auto simp: write_bytes_def ok split: sum.splits prod.splits dest: as_bytes_msg)
  show "fst (read_bytes drv a r n s) \<noteq> Inl (ValueError AddrRange)"
    by (auto simp: read_bytes_def ok split: sum.splits prod.splits)
  show "fst (write_direct drv a d s) \<noteq> Inl (ValueError AddrRange)"
    by (auto simp: write_direct_def ok split: sum.splits prod.splits dest: as_bytes_msg)
  show "fst (read_direct drv a n s) \<noteq> Inl (ValueError AddrRange)"
    by (auto simp: read_direct_def ok split: sum.splits prod.splits)
qed

theorem device_address_validation_witness:
  "write_byte echo_drv 200 1 255 idle = (Inl (ValueError AddrRange), idle) \<and>
   read_direct dead_drv (- 1) 2 idle = (Inl (ValueError AddrRange), idle) \<and>
   fst (write_byte echo_drv 64 1 255 idle) \<noteq> Inl (ValueError AddrRange) \<and>
   fst (read_direct dead_drv 127 2 idle) \<noteq> Inl (ValueError AddrRange)"
  using device_address_validation [where a = 200 and drv = echo_drv and r = 1 and v = 255 and s = idle]
    device_address_validation [where a = "- 1" and drv = dead_drv and n = 2 and s = idle]
    device_address_validation [where a = 64 and drv = echo_drv and r = 1 and v = 255 and s = idle]
    device_address_validation [where a = 127 and drv = dead_drv and n = 2 and s = idle]
  by simp

section \<open>Payload validation\<close>

text \<open>
  Claim C2. \<^verbatim>\<open>write_byte\<close> with a value outside \<open>0..255\<close> and \<^verbatim>\<open>write_word\<close>
  with a value outside \<open>0..65535\<close> raise \<^verbatim>\<open>ValueError\<close> and leave the bus as it was (no
  driver method has been called); the error is the one of the value check (lines 54 and 87)
  whenever the device address has passed \<^verbatim>\<open>_check_addr\<close>, which runs first. For a
  value inside the range the value check raises nothing.
\<close>

theorem value_validation:
  "(\<not> (0 \<le> v \<and> v \<le> 255) \<longrightarrow>
      (\<exists>m. write_byte drv a r v s = (Inl (ValueError m), s)) \<and>
      (0 \<le> a \<and> a \<le> 127 \<longrightarrow> write_byte drv a r v s = (Inl (ValueError ByteRange), s))) \<and>
   (0 \<le> v \<and> v \<le> 255 \<longrightarrow> fst (write_byte drv a r v s) \<noteq> Inl (ValueError ByteRange)) \<and>
   (\<not> (0 \<le> w \<and> w \<le> 65535) \<longrightarrow>
      (\<exists>m. write_word drv a r w bo s = (Inl (ValueError m), s)) \<and>
      (0 \<le> a \<and> a \<le> 127 \<longrightarrow> write_word drv a r w bo s = (Inl (ValueError WordRange), s))) \<and>
   (0 \<le> w \<and> w \<le> 65535 \<longrightarrow> fst (write_word drv a r w bo s) \<noteq> Inl (ValueError WordRange))"
proof (intro conjI impI)
  assume bad: "\<not> (0 \<le> v \<and> v \<le> 255)"
  show "\<exists>m. write_byte drv a r v s = (Inl (ValueError m), s)"
    using bad by (cases "0 \<le> a \<and> a \<le> 127") (simp_all add: write_byte_def check_addr_def)
  assume "0 \<le> a \<and> a \<le> 127"
  then show "write_byte drv a r v s = (Inl (ValueError ByteRange), s)"
    using bad by (simp add: write_byte_def check_addr_def)
next
  assume "0 \<le> v \<and> v \<le> 255"
  then show "fst (write_byte drv a r v s) \<noteq> Inl (ValueError ByteRange)"
    by (auto simp: write_byte_def check_addr_def i2c_writeto_mem_def split: sum.splits)
next
  assume bad: "\<not> (0 \<le> w \<and> w \<le> 65535)"
  show "\<exists>m. write_word drv a r w bo s = (Inl (ValueError m), s)"
    using bad by (cases "0 \<le> a \<and> a \<le> 127") (simp_all add: write_word_def check_addr_def)
  assume "0 \<le> a \<and> a \<le> 127"
  then show "write_word drv a r w bo s = (Inl (ValueError WordRange), s)"
    using bad by (simp add: write_word_def check_addr_def)
next
  assume "0 \<le> w \<and> w \<le> 65535"
  then show "fst (write_word drv a r w bo s) \<noteq> Inl (ValueError WordRange)"
    by (auto simp: write_word_def check_addr_def py_bytes_word_data i2c_writeto_mem_def
        split: sum.splits)
qed

theorem value_validation_witness:
  "write_byte echo_drv 64 1 256 idle = (Inl (ValueError ByteRange), idle) \<and>
   fst (write_byte echo_drv 64 1 255 idle) \<noteq> Inl (ValueError ByteRange) \<and>
   write_word echo_drv 64 1 (- 1) ''big'' idle = (Inl (ValueError WordRange), idle) \<and>
   fst (write_word echo_drv 64 1 65535 ''big'' idle) \<noteq> Inl (ValueError WordRange)"
  using value_validation [where v = 256 and a = 64 and drv = echo_drv and r = 1 and s = idle
      and w = "- 1" and bo = "''big''"]
    value_validation [where v = 255 and a = 64 and drv = echo_drv and r = 1 and s = idle
      and w = 65535 and bo = "''big''"]
  by simp

section \<open>Word packing and unpacking\<close>

text \<open>
  Claim C3. For a value in \<open>0..65535\<close> (and a device address that passes the check),
  \<^verbatim>\<open>write_word\<close> makes one \<^verbatim>\<open>writeto_mem\<close> call whose payload is the two bytes
  \<open>[(value >> 8) & 0xFF, value & 0xFF]\<close> under \<^verbatim>\<open>'big'\<close> and
  \<open>[value & 0xFF, (value >> 8) & 0xFF]\<close> under \<^verbatim>\<open>'little'\<close>; \<open>0xABCD\<close> is sent as
  \<open>[0xAB, 0xCD]\<close> and as \<open>[0xCD, 0xAB]\<close>.
\<close>

theorem write_word_payload:
  assumes "0 \<le> a" and "a \<le> 127" and "0 \<le> v" and "v \<le> 65535"
  shows "(\<exists>bs. calls (snd (write_word drv a r v ''big'' s)) = calls s @ [WritetoMem a r bs] \<and>
            map uint bs = [drop_bit 8 v AND 0xFF, v AND 0xFF]) \<and>
         (\<exists>bs. calls (snd (write_word drv a r v ''little'' s)) = calls s @ [WritetoMem a r bs] \<and>
            map uint bs = [v AND 0xFF, drop_bit 8 v AND 0xFF]) \<and>
         (v = 0xABCD \<longrightarrow>
            calls (snd (write_word drv a r v ''big'' s)) = calls s @ [WritetoMem a r [0xAB, 0xCD]] \<and>
            calls (snd (write_word drv a r v ''little'' s)) = calls s @ [WritetoMem a r [0xCD, 0xAB]])"
proof -
  have sent: "calls (snd (write_word drv a r v bo s)) =
      calls s @ [WritetoMem a r (map word_of_int (word_data bo v))]" for bo
    by (simp add: write_word_valid [OF assms] split: sum.splits)
  have big: "map uint (map word_of_int (word_data ''big'' v) :: byte list) =
      [drop_bit 8 v AND 0xFF, v AND 0xFF]"
    unfolding uint_word_data by (simp add: word_data_def)
  have little: "map uint (map word_of_int (word_data ''little'' v) :: byte list) =
      [v AND 0xFF, drop_bit 8 v AND 0xFF]"
    unfolding uint_word_data by (simp add: word_data_def)
  have ex: "v = 0xABCD \<Longrightarrow> (drop_bit 8 v AND 0xFF) = 0xAB \<and> (v AND 0xFF) = 0xCD"
    by (simp add: drop_bit_eq_div)
  show ?thesis
    using sent [of "''big''"] sent [of "''little''"] big little ex
    by (auto simp: word_data_def)
qed

theorem write_word_payload_witness:
  "calls (snd (write_word echo_drv 64 2 0xABCD ''big'' idle)) = [WritetoMem 64 2 [0xAB, 0xCD]] \<and>
   calls (snd (write_word echo_drv 64 2 0xABCD ''little'' idle)) = [WritetoMem 64 2 [0xCD, 0xAB]]"
  using write_word_payload [where a = 64 and v = "0xABCD" and drv = echo_drv and r = 2 and s = idle]
  by (simp add: idle_def)

text \<open>
  Claim C4. Decoding inverts encoding under the same byte-order tag: when the driver
  answers the two-byte register read of \<^verbatim>\<open>read_word\<close> with the payload that
  \<^verbatim>\<open>write_word\<close> sent for a value in \<open>0..65535\<close>, \<^verbatim>\<open>read_word\<close> returns that
  value, whatever the tag.
\<close>

theorem word_round_trip:
  assumes "0 \<le> a" and "a \<le> 127" and "0 \<le> v" and "v \<le> 65535"
    and "calls (snd (write_word drv a r v bo s)) = calls s @ [WritetoMem a r bs]"
    and "d_readfrom_mem drv (calls s') a r 2 = Inr bs"
  shows "fst (read_word drv a r bo s') = Inr v"
proof -
  have "calls (snd (write_word drv a r v bo s)) =
      calls s @ [WritetoMem a r (map word_of_int (word_data bo v))]"
    by (simp add: write_word_valid [OF assms(1-4)] split: sum.splits)
  with assms(5) have bs: "bs = map word_of_int (word_data bo v)"
    by simp
  show ?thesis
    by (simp add: read_word_valid [OF assms(1,2)] assms(6) bs data_word_word_data [OF assms(3,4)])
qed

theorem word_round_trip_witness:
  "fst (read_word echo_drv 64 2 ''big'' (snd (write_word echo_drv 64 2 0x1234 ''big'' idle))) = Inr 0x1234 \<and>
   fst (read_word echo_drv 64 2 ''little'' (snd (write_word echo_drv 64 2 0x1234 ''little'' idle))) = Inr 0x1234"
proof -
  have big: "calls (snd (write_word echo_drv 64 2 0x1234 ''big'' idle)) =
      calls idle @ [WritetoMem 64 2 [0x12, 0x34]]"
    by code_simp
  have big_echo: "d_readfrom_mem echo_drv
      (calls (snd (write_word echo_drv 64 2 0x1234 ''big'' idle))) 64 2 2 = Inr [0x12, 0x34]"
    by code_simp
  have little: "calls (snd (write_word echo_drv 64 2 0x1234 ''little'' idle)) =
      calls idle @ [WritetoMem 64 2 [0x34, 0x12]]"
    by code_simp
  have little_echo: "d_readfrom_mem echo_drv
      (calls (snd (write_word echo_drv 64 2 0x1234 ''little'' idle))) 64 2 2 = Inr [0x34, 0x12]"
    by code_simp
  show ?thesis
    using word_round_trip [OF _ _ _ _ big big_echo] word_round_trip [OF _ _ _ _ little little_echo]
    by simp
qed

section \<open>Scanning\<close>

text \<open>
  Claim C5. For every driver and every bus state, \<^verbatim>\<open>scan\<close> returns the same value (or
  raises the same error) and makes the same driver calls with \<^verbatim>\<open>verbose\<close> true and
  false; with \<^verbatim>\<open>verbose\<close> false nothing is printed. The flag only decides whether the
  report is printed.
\<close>

theorem scan_verbose_same_result:
  "fst (scan drv True s) = fst (scan drv False s) \<and>
   calls (snd (scan drv True s)) = calls (snd (scan drv False s)) \<and>
   stdout (snd (scan drv False s)) = stdout s"
  by (simp add: scan_def i2c_scan_def split: sum.splits)

theorem scan_verbose_same_result_witness:
  "fst (scan echo_drv True idle) = Inr [0x3C, 0x40] \<and>
   fst (scan echo_drv False idle) = Inr [0x3C, 0x40] \<and>
   stdout (snd (scan echo_drv True idle)) = [FoundHeader, FoundAddr 0x3C, FoundAddr 0x40] \<and>
   stdout (snd (scan echo_drv False idle)) = []"
proof -
  have "fst (scan echo_drv True idle) = Inr [0x3C, 0x40]"
    by (simp add: scan_def i2c_scan_def echo_drv_def)
  moreover have "stdout (snd (scan echo_drv True idle)) = [FoundHeader, FoundAddr 0x3C, FoundAddr 0x40]"
    by (simp add: scan_def i2c_scan_def echo_drv_def idle_def)
  ultimately show ?thesis
    using scan_verbose_same_result [of echo_drv idle] by (simp add: idle_def)
qed

section \<open>Byte-sequence payloads\<close>

text \<open>
  Claim C6, as the code has it. The claim asks for a \<^verbatim>\<open>ValueError\<close> whenever
  \<^verbatim>\<open>data\<close> is neither \<^verbatim>\<open>bytes\<close> nor a list of integers convertible to bytes. A
  list holding a string is such an argument, and \<^verbatim>\<open>bytes(data)\<close> raises
  \<^verbatim>\<open>TypeError\<close> for it: the module's own \<^verbatim>\<open>ValueError\<close> (lines 130 and 164) is
  only reached by arguments that are not lists.
\<close>

theorem write_data_counterexample:
  "write_bytes echo_drv 64 3 (PList [PStr ''a'']) idle = (Inl TypeError, idle) \<and>
   write_direct echo_drv 64 (PList [PStr ''a'']) idle = (Inl TypeError, idle)"
  by (simp add: write_bytes_def write_direct_def check_addr_def as_bytes_def)

text \<open>
  Claim C6, amended. With a device address in \<open>0..127\<close>, \<^verbatim>\<open>write_bytes\<close> and
  \<^verbatim>\<open>write_direct\<close> raise before any driver call (the bus is left as it was) when
  \<^verbatim>\<open>data\<close> cannot be converted:
  \<^item> \<^verbatim>\<open>ValueError\<close> of the module when \<^verbatim>\<open>data\<close> is neither a list nor \<^verbatim>\<open>bytes\<close>;
  \<^item> \<^verbatim>\<open>ValueError\<close> of \<^verbatim>\<open>bytes(data)\<close> when the first item of the list that is not an
    integer in \<open>0..255\<close> is an integer outside that range;
  \<^item> \<^verbatim>\<open>TypeError\<close> of \<^verbatim>\<open>bytes(data)\<close> when that first item is not an integer.

  A list of integers all in \<open>0..255\<close> is converted to the bytes with those values and
  passed to the driver in one call; \<^verbatim>\<open>bytes\<close> are passed as they are.
\<close>

theorem write_data_conversion:
  assumes "0 \<le> a" and "a \<le> 127"
  shows
    "((\<forall>xs. data \<noteq> PList xs) \<and> (\<forall>bs. data \<noteq> PBytes bs) \<longrightarrow>
        write_bytes drv a r data s = (Inl (ValueError DataKind), s) \<and>
        write_direct drv a data s = (Inl (ValueError DataKind), s)) \<and>
     (list_all (\<lambda>i. 0 \<le> i \<and> i \<le> 255) ns \<and> \<not> (0 \<le> k \<and> k \<le> 255) \<longrightarrow>
        write_bytes drv a r (PList (map PInt ns @ PInt k # ys)) s =
          (Inl (ValueError BytesItemRange), s) \<and>
        write_direct drv a (PList (map PInt ns @ PInt k # ys)) s =
          (Inl (ValueError BytesItemRange), s)) \<and>
     (list_all (\<lambda>i. 0 \<le> i \<and> i \<le> 255) ns \<and> (\<forall>i. x \<noteq> PInt i) \<longrightarrow>
        write_bytes drv a r (PList (map PInt ns @ x # ys)) s = (Inl TypeError, s) \<and>
        write_direct drv a (PList (map PInt ns @ x # ys)) s = (Inl TypeError, s)) \<and>
     (list_all (\<lambda>i. 0 \<le> i \<and> i \<le> 255) ns \<longrightarrow>
        (\<exists>bs. map uint bs = ns \<and>
           calls (snd (write_bytes drv a r (PList (map PInt ns)) s)) =
             calls s @ [WritetoMem a r bs] \<and>
           calls (snd (write_direct drv a (PList (map PInt ns)) s)) =
             calls s @ [Writeto a bs])) \<and>
     calls (snd (write_bytes drv a r (PBytes bs) s)) = calls s @ [WritetoMem a r bs] \<and>
     calls (snd (write_direct drv a (PBytes bs) s)) = calls s @ [Writeto a bs]"
proof (intro conjI impI)
  assume "(\<forall>xs. data \<noteq> PList xs) \<and> (\<forall>bs. data \<noteq> PBytes bs)"
  then have "as_bytes data = Inl (ValueError DataKind)"
    by (cases data) (simp_all add: as_bytes_def)
  then show "write_bytes drv a r data s = (Inl (ValueError DataKind), s)"
    and "write_direct drv a data s = (Inl (ValueError DataKind), s)"
    by (rule write_bad_data [OF assms])+
next
  assume "list_all (\<lambda>i. 0 \<le> i \<and> i \<le> 255) ns \<and> \<not> (0 \<le> k \<and> k \<le> 255)"
  then have "as_bytes (PList (map PInt ns @ PInt k # ys)) = Inl (ValueError BytesItemRange)"
    by (auto simp: as_bytes_def py_bytes_ints)
  then show "write_bytes drv a r (PList (map PInt ns @ PInt k # ys)) s =
      (Inl (ValueError BytesItemRange), s)"
    and "write_direct drv a (PList (map PInt ns @ PInt k # ys)) s =
      (Inl (ValueError BytesItemRange), s)"
    by (rule write_bad_data [OF assms])+
next
  assume "list_all (\<lambda>i. 0 \<le> i \<and> i \<le> 255) ns \<and> (\<forall>i. x \<noteq> PInt i)"
  then have "as_bytes (PList (map PInt ns @ x # ys)) = Inl TypeError"
    by (simp add: as_bytes_def py_bytes_ints py_bytes_not_int)
  then show "write_bytes drv a r (PList (map PInt ns @ x # ys)) s = (Inl TypeError, s)"
    and "write_direct drv a (PList (map PInt ns @ x # ys)) s = (Inl TypeError, s)"
    by (rule write_bad_data [OF assms])+
next
  assume ok: "list_all (\<lambda>i. 0 \<le> i \<and> i \<le> 255) ns"
  then have conv: "as_bytes (PList (map PInt ns)) = Inr (map word_of_int ns)"
    using py_bytes_ints [of ns "[]"] by (simp add: as_bytes_def)
  have "calls (snd (write_bytes drv a r (PList (map PInt ns)) s)) =
      calls s @ [WritetoMem a r (map word_of_int ns)]"
    by (simp add: write_bytes_valid [OF assms conv] split: sum.splits)
  moreover have "calls (snd (write_direct drv a (PList (map PInt ns)) s)) =
      calls s @ [Writeto a (map word_of_int ns)]"
    by (simp add: write_direct_valid [OF assms conv] split: sum.splits)
  ultimately show "\<exists>bs. map uint bs = ns \<and>
      calls (snd (write_bytes drv a r (PList (map PInt ns)) s)) = calls s @ [WritetoMem a r bs] \<and>
      calls (snd (write_direct drv a (PList (map PInt ns)) s)) = calls s @ [Writeto a bs]"
    using uint_byte_ints [OF ok] by blast
next
  have conv: "as_bytes (PBytes bs) = Inr bs"
    by (simp add: as_bytes_def)
  show "calls (snd (write_bytes drv a r (PBytes bs) s)) = calls s @ [WritetoMem a r bs]"
    by (simp add: write_bytes_valid [OF assms conv] split: sum.splits)
  show "calls (snd (write_direct drv a (PBytes bs) s)) = calls s @ [Writeto a bs]"
    by (simp add: write_direct_valid [OF assms conv] split: sum.splits)
qed

theorem write_data_conversion_witness:
  "write_bytes echo_drv 64 3 (PStr ''abc'') idle = (Inl (ValueError DataKind), idle) \<and>
   write_direct echo_drv 64 (PStr ''abc'') idle = (Inl (ValueError DataKind), idle) \<and>
   write_bytes echo_drv 64 3 (PList [PInt 1, PInt 256, PStr ''a'']) idle =
     (Inl (ValueError BytesItemRange), idle) \<and>
   write_direct echo_drv 64 (PList [PInt 1, PInt 256, PStr ''a'']) idle =
     (Inl (ValueError BytesItemRange), idle) \<and>
   write_bytes echo_drv 64 3 (PList [PInt 1, PNone, PStr ''a'']) idle = (Inl TypeError, idle) \<and>
   write_direct echo_drv 64 (PList [PInt 1, PNone, PStr ''a'']) idle = (Inl TypeError, idle) \<and>
   (\<exists>bs. map uint bs = [1] \<and>
      calls (snd (write_bytes echo_drv 64 3 (PList [PInt 1]) idle)) = [WritetoMem 64 3 bs] \<and>
      calls (snd (write_direct echo_drv 64 (PList [PInt 1]) idle)) = [Writeto 64 bs]) \<and>
   calls (snd (write_bytes echo_drv 64 3 (PBytes [0xAA, 0xBB]) idle)) =
     [WritetoMem 64 3 [0xAA, 0xBB]] \<and>
   calls (snd (write_direct echo_drv 64 (PBytes [0xAA, 0xBB]) idle)) = [Writeto 64 [0xAA, 0xBB]]"
proof -
  have idle: "calls idle = []"
    by (simp add: idle_def)
  show ?thesis
    using write_data_conversion [where a = 64 and drv = echo_drv and r = 3 and s = idle
        and data = "PStr ''abc''" and ns = "[1]" and k = 256 and ys = "[PStr ''a'']"
        and x = PNone and bs = "[0xAA, 0xBB]"]
    by (simp add: idle)
qed

section \<open>Driver failures\<close>

text \<open>
  Claim C7, as the code has it. The claim asks every operation to emit a diagnostic before
  it passes a driver failure on. \<^verbatim>\<open>scan\<close> has no \<^verbatim>\<open>try\<close>: the \<^verbatim>\<open>OSError\<close> of
  the driver's scan leaves it with nothing printed, even with \<^verbatim>\<open>verbose\<close> true.
\<close>

theorem scan_failure_counterexample:
  "scan dead_drv True idle = (Inl (OSError 19), \<lparr>calls = [Scan], stdout = []\<rparr>)"
  by (simp add: scan_def i2c_scan_def dead_drv_def idle_def logged_def)

text \<open>
  Claim C7, amended. When the driver call of an operation raises \<^verbatim>\<open>OSError\<close> on inputs
  that pass the checks, the operation raises that same \<^verbatim>\<open>OSError\<close>, having made exactly
  that one driver call (no retry, no substituted result). The eight operations that take a
  device address print one diagnostic line first; \<^verbatim>\<open>scan\<close> prints nothing.
\<close>

theorem transport_failure_propagates:
  "(d_scan drv (calls s) = Inl errno \<longrightarrow>
      scan drv verbose s = (Inl (OSError errno), s\<lparr>calls := calls s @ [Scan]\<rparr>)) \<and>
   (0 \<le> a \<and> a \<le> 127 \<and> 0 \<le> v \<and> v \<le> 255 \<and>
    d_writeto_mem drv (calls s) a r [word_of_int v] = Inl errno \<longrightarrow>
      write_byte drv a r v s =
        (Inl (OSError errno),
         s\<lparr>calls := calls s @ [WritetoMem a r [word_of_int v]],
           stdout := stdout s @ [WriteByteFailed a r]\<rparr>)) \<and>
   (0 \<le> a \<and> a \<le> 127 \<and> d_readfrom_mem drv (calls s) a r 1 = Inl errno \<longrightarrow>
      read_byte drv a r s =
        (Inl (OSError errno),
         s\<lparr>calls := calls s @ [ReadfromMem a r 1],
           stdout := stdout s @ [ReadByteFailed a r]\<rparr>)) \<and>
   (0 \<le> a \<and> a \<le> 127 \<and> 0 \<le> w \<and> w \<le> 65535 \<and>
    d_writeto_mem drv (calls s) a r (map word_of_int (word_data bo w)) = Inl errno \<longrightarrow>
      write_word drv a r w bo s =
        (Inl (OSError errno),
         s\<lparr>calls := calls s @ [WritetoMem a r (map word_of_int (word_data bo w))],
           stdout := stdout s @ [WriteWordFailed a r]\<rparr>)) \<and>
   (0 \<le> a \<and> a \<le> 127 \<and> d_readfrom_mem drv (calls s) a r 2 = Inl errno \<longrightarrow>
      read_word drv a r bo s =
        (Inl (OSError errno),
         s\<lparr>calls := calls s @ [ReadfromMem a r 2],
           stdout := stdout s @ [ReadWordFailed a r]\<rparr>)) \<and>
   (0 \<le> a \<and> a \<le> 127 \<and> as_bytes data = Inr bs \<and>
    d_writeto_mem drv (calls s) a r bs = Inl errno \<longrightarrow>
      write_bytes drv a r data s =
        (Inl (OSError errno),
         s\<lparr>calls := calls s @ [WritetoMem a r bs],
           stdout := stdout s @ [WriteBytesFailed a r]\<rparr>)) \<and>
   (0 \<le> a \<and> a \<le> 127 \<and> d_readfrom_mem drv (calls s) a r n = Inl errno \<longrightarrow>
      read_bytes drv a r n s =
        (Inl (OSError errno),
         s\<lparr>calls := calls s @ [ReadfromMem a r n],
           stdout := stdout s @ [ReadBytesFailed a r]\<rparr>)) \<and>
   (0 \<le> a \<and> a \<le> 127 \<and> as_bytes data = Inr bs \<and>
    d_writeto drv (calls s) a bs = Inl errno \<longrightarrow>
      write_direct drv a data s =
        (Inl (OSError errno),
         s\<lparr>calls := calls s @ [Writeto a bs],
           stdout := stdout s @ [WriteDirectFailed a]\<rparr>)) \<and>
   (0 \<le> a \<and> a \<le> 127 \<and> d_readfrom drv (calls s) a n = Inl errno \<longrightarrow>
      read_direct drv a n s =
        (Inl (OSError errno),
         s\<lparr>calls := calls s @ [Readfrom a n],
           stdout := stdout s @ [ReadDirectFailed a]\<rparr>))"
proof (intro conjI impI)
  assume "d_scan drv (calls s) = Inl errno"
  then show "scan drv verbose s = (Inl (OSError errno), s\<lparr>calls := calls s @ [Scan]\<rparr>)"
    by (simp add: scan_def i2c_scan_def logged_eq)
next
  assume "0 \<le> a \<and> a \<le> 127 \<and> 0 \<le> v \<and> v \<le> 255 \<and>
    d_writeto_mem drv (calls s) a r [word_of_int v] = Inl errno"
  then show "write_byte drv a r v s =
      (Inl (OSError errno),
       s\<lparr>calls := calls s @ [WritetoMem a r [word_of_int v]],
         stdout := stdout s @ [WriteByteFailed a r]\<rparr>)"
    by (simp add: write_byte_valid print_logged)
next
  assume "0 \<le> a \<and> a \<le> 127 \<and> d_readfrom_mem drv (calls s) a r 1 = Inl errno"
  then show "read_byte drv a r s =
      (Inl (OSError errno),
       s\<lparr>calls := calls s @ [ReadfromMem a r 1], stdout := stdout s @ [ReadByteFailed a r]\<rparr>)"
    by (simp add: read_byte_valid print_logged)
next
  assume "0 \<le> a \<and> a \<le> 127 \<and> 0 \<le> w \<and> w \<le> 65535 \<and>
    d_writeto_mem drv (calls s) a r (map word_of_int (word_data bo w)) = Inl errno"
  then show "write_word drv a r w bo s =
      (Inl (OSError errno),
       s\<lparr>calls := calls s @ [WritetoMem a r (map word_of_int (word_data bo w))],
         stdout := stdout s @ [WriteWordFailed a r]\<rparr>)"
    by (simp add: write_word_valid print_logged)
next
  assume "0 \<le> a \<and> a \<le> 127 \<and> d_readfrom_mem drv (calls s) a r 2 = Inl errno"
  then show "read_word drv a r bo s =
      (Inl (OSError errno),
       s\<lparr>calls := calls s @ [ReadfromMem a r 2], stdout := stdout s @ [ReadWordFailed a r]\<rparr>)"
    by (simp add: read_word_valid print_logged)
next
  assume "0 \<le> a \<and> a \<le> 127 \<and> as_bytes data = Inr bs \<and>
    d_writeto_mem drv (calls s) a r bs = Inl errno"
  then show "write_bytes drv a r data s =
      (Inl (OSError errno),
       s\<lparr>calls := calls s @ [WritetoMem a r bs], stdout := stdout s @ [WriteBytesFailed a r]\<rparr>)"
    by (simp add: write_bytes_valid print_logged)
next
  assume "0 \<le> a \<and> a \<le> 127 \<and> d_readfrom_mem drv (calls s) a r n = Inl errno"
  then show "read_bytes drv a r n s =
      (Inl (OSError errno),
       s\<lparr>calls := calls s @ [ReadfromMem a r n], stdout := stdout s @ [ReadBytesFailed a r]\<rparr>)"
    by (simp add: read_bytes_valid print_logged)
next
  assume "0 \<le> a \<and> a \<le> 127 \<and> as_bytes data = Inr bs \<and> d_writeto drv (calls s) a bs = Inl errno"
  then show "write_direct drv a data s =
      (Inl (OSError errno),
       s\<lparr>calls := calls s @ [Writeto a bs], stdout := stdout s @ [WriteDirectFailed a]\<rparr>)"
    by (simp add: write_direct_valid print_logged)
next
  assume "0 \<le> a \<and> a \<le> 127 \<and> d_readfrom drv (calls s) a n = Inl errno"
  then show "read_direct drv a n s =
      (Inl (OSError errno),
       s\<lparr>calls := calls s @ [Readfrom a n], stdout := stdout s @ [ReadDirectFailed a]\<rparr>)"
    by (simp add: read_direct_valid print_logged)
qed

theorem transport_failure_propagates_witness:
  "scan dead_drv False idle = (Inl (OSError 19), \<lparr>calls = [Scan], stdout = []\<rparr>) \<and>
   write_byte dead_drv 64 1 255 idle =
     (Inl (OSError 19), \<lparr>calls = [WritetoMem 64 1 [255]], stdout = [WriteByteFailed 64 1]\<rparr>) \<and>
   read_byte dead_drv 64 1 idle =
     (Inl (OSError 19), \<lparr>calls = [ReadfromMem 64 1 1], stdout = [ReadByteFailed 64 1]\<rparr>) \<and>
   write_word dead_drv 64 1 0x1234 ''big'' idle =
     (Inl (OSError 19),
      \<lparr>calls = [WritetoMem 64 1 [0x12, 0x34]], stdout = [WriteWordFailed 64 1]\<rparr>) \<and>
   read_word dead_drv 64 1 ''big'' idle =
     (Inl (OSError 19), \<lparr>calls = [ReadfromMem 64 1 2], stdout = [ReadWordFailed 64 1]\<rparr>) \<and>
   write_bytes dead_drv 64 1 (PList [PInt 1, PInt 2]) idle =
     (Inl (OSError 19), \<lparr>calls = [WritetoMem 64 1 [1, 2]], stdout = [WriteBytesFailed 64 1]\<rparr>) \<and>
   read_bytes dead_drv 64 1 3 idle =
     (Inl (OSError 19), \<lparr>calls = [ReadfromMem 64 1 3], stdout = [ReadBytesFailed 64 1]\<rparr>) \<and>
   write_direct dead_drv 64 (PList [PInt 1, PInt 2]) idle =
     (Inl (OSError 19), \<lparr>calls = [Writeto 64 [1, 2]], stdout = [WriteDirectFailed 64]\<rparr>) \<and>
   read_direct dead_drv 64 3 idle =
     (Inl (OSError 19), \<lparr>calls = [Readfrom 64 3], stdout = [ReadDirectFailed 64]\<rparr>)"
proof -
  have dead: "d_scan dead_drv h = Inl 19" "d_writeto_mem dead_drv h a r bs = Inl 19"
    "d_readfrom_mem dead_drv h a r n = Inl 19" "d_writeto dead_drv h a bs = Inl 19"
    "d_readfrom dead_drv h a n = Inl 19" for h a r n bs
    by (simp_all add: dead_drv_def)
  have data: "as_bytes (PList [PInt 1, PInt 2]) = Inr [1, 2]"
    by (simp add: as_bytes_def)
  have word: "map word_of_int (word_data ''big'' 0x1234) = [0x12, 0x34 :: byte]"
    by (simp add: word_data_def drop_bit_eq_div)
  show ?thesis
    using transport_failure_propagates [where drv = dead_drv and s = idle and errno = 19
        and verbose = False and a = 64 and r = 1 and v = 255 and w = "0x1234" and bo = "''big''"
        and data = "PList [PInt 1, PInt 2]" and bs = "[1, 2]" and n = 3]
    by (simp add: dead data word idle_def)
qed

section \<open>Register addresses\<close>

text \<open>
  Claim C8. The register address is never checked: for every integer \<open>r\<close>, each of the
  six register-addressed operations, once the device address (and the payload, for
  writes) has passed its check, makes its one driver call with \<open>r\<close> as given, and can
  only fail with the \<^verbatim>\<open>OSError\<close> the driver raises for that call (or, for
  \<^verbatim>\<open>read_byte\<close> and \<^verbatim>\<open>read_word\<close>, with the \<^verbatim>\<open>IndexError\<close> of indexing a too
  short answer): never with a validation error.
\<close>

theorem register_address_unchecked:
  assumes "0 \<le> a" and "a \<le> 127"
  shows
    "(0 \<le> v \<and> v \<le> 255 \<longrightarrow>
        calls (snd (write_byte drv a r v s)) = calls s @ [WritetoMem a r [word_of_int v]] \<and>
        (\<forall>e. fst (write_byte drv a r v s) = Inl e \<longrightarrow>
           (\<exists>errno. e = OSError errno \<and>
              d_writeto_mem drv (calls s) a r [word_of_int v] = Inl errno))) \<and>
     calls (snd (read_byte drv a r s)) = calls s @ [ReadfromMem a r 1] \<and>
     (\<forall>e. fst (read_byte drv a r s) = Inl e \<longrightarrow>
        e = IndexError \<or>
        (\<exists>errno. e = OSError errno \<and> d_readfrom_mem drv (calls s) a r 1 = Inl errno)) \<and>
     (0 \<le> w \<and> w \<le> 65535 \<longrightarrow>
        calls (snd (write_word drv a r w bo s)) =
          calls s @ [WritetoMem a r (map word_of_int (word_data bo w))] \<and>
        (\<forall>e. fst (write_word drv a r w bo s) = Inl e \<longrightarrow>
           (\<exists>errno. e = OSError errno \<and>
              d_writeto_mem drv (calls s) a r (map word_of_int (word_data bo w)) = Inl errno))) \<and>
     calls (snd (read_word drv a r bo s)) = calls s @ [ReadfromMem a r 2] \<and>
     (\<forall>e. fst (read_word drv a r bo s) = Inl e \<longrightarrow>
        e = IndexError \<or>
        (\<exists>errno. e = OSError errno \<and> d_readfrom_mem drv (calls s) a r 2 = Inl errno)) \<and>
     (as_bytes data = Inr bs \<longrightarrow>
        calls (snd (write_bytes drv a r data s)) = calls s @ [WritetoMem a r bs] \<and>
        (\<forall>e. fst (write_bytes drv a r data s) = Inl e \<longrightarrow>
           (\<exists>errno. e = OSError errno \<and> d_writeto_mem drv (calls s) a r bs = Inl errno))) \<and>
     calls (snd (read_bytes drv a r n s)) = calls s @ [ReadfromMem a r n] \<and>
     (\<forall>e. fst (read_bytes drv a r n s) = Inl e \<longrightarrow>
        (\<exists>errno. e = OSError errno \<and> d_readfrom_mem drv (calls s) a r n = Inl errno))"
proof (intro conjI impI allI)
  assume v: "0 \<le> v \<and> v \<le> 255"
  show "calls (snd (write_byte drv a r v s)) = calls s @ [WritetoMem a r [word_of_int v]]"
    using v by (simp add: write_byte_valid assms split: sum.splits)
  fix e assume "fst (write_byte drv a r v s) = Inl e"
  then show "\<exists>errno. e = OSError errno \<and>
      d_writeto_mem drv (calls s) a r [word_of_int v] = Inl errno"
    using v by (auto simp: write_byte_valid assms split: sum.splits)
next
  show "calls (snd (read_byte drv a r s)) = calls s @ [ReadfromMem a r 1]"
    by (simp add: read_byte_valid assms split: sum.splits)
next
  fix e assume "fst (read_byte drv a r s) = Inl e"
  then show "e = IndexError \<or>
      (\<exists>errno. e = OSError errno \<and> d_readfrom_mem drv (calls s) a r 1 = Inl errno)"
    by (auto simp: read_byte_valid assms split: sum.splits dest: bytes_item_msg)
next
  assume w: "0 \<le> w \<and> w \<le> 65535"
  show "calls (snd (write_word drv a r w bo s)) =
      calls s @ [WritetoMem a r (map word_of_int (word_data bo w))]"
    using w by (simp add: write_word_valid assms split: sum.splits)
  fix e assume "fst (write_word drv a r w bo s) = Inl e"
  then show "\<exists>errno. e = OSError errno \<and>
      d_writeto_mem drv (calls s) a r (map word_of_int (word_data bo w)) = Inl errno"
    using w by (auto simp: write_word_valid assms split: sum.splits)
next
  show "calls (snd (read_word drv a r bo s)) = calls s @ [ReadfromMem a r 2]"
    by (simp add: read_word_valid assms split: sum.splits)
next
  fix e assume "fst (read_word drv a r bo s) = Inl e"
  then show "e = IndexError \<or>
      (\<exists>errno. e = OSError errno \<and> d_readfrom_mem drv (calls s) a r 2 = Inl errno)"
    by (auto simp: read_word_valid assms split: sum.splits dest: data_word_msg)
next
  assume d: "as_bytes data = Inr bs"
  show "calls (snd (write_bytes drv a r data s)) = calls s @ [WritetoMem a r bs]"
    by (simp add: write_bytes_valid [OF assms d] split: sum.splits)
  fix e assume "fst (write_bytes drv a r data s) = Inl e"
  then show "\<exists>errno. e = OSError errno \<and> d_writeto_mem drv (calls s) a r bs = Inl errno"
    by (auto simp: write_bytes_valid [OF assms d] split: sum.splits)
next
  show "calls (snd (read_bytes drv a r n s)) = calls s @ [ReadfromMem a r n]"
    by (simp add: read_bytes_valid assms split: sum.splits)
next
  fix e assume "fst (read_bytes drv a r n s) = Inl e"
  then show "\<exists>errno. e = OSError errno \<and> d_readfrom_mem drv (calls s) a r n = Inl errno"
    by (auto simp: read_bytes_valid assms split: sum.splits)
qed

theorem register_address_unchecked_witness:
  "calls (snd (write_byte echo_drv 64 1000 255 idle)) = [WritetoMem 64 1000 [255]] \<and>
   calls (snd (read_byte echo_drv 64 1000 idle)) = [ReadfromMem 64 1000 1] \<and>
   calls (snd (write_word echo_drv 64 1000 0x1234 ''big'' idle)) =
     [WritetoMem 64 1000 [0x12, 0x34]] \<and>
   calls (snd (read_word echo_drv 64 1000 ''big'' idle)) = [ReadfromMem 64 1000 2] \<and>
   calls (snd (write_bytes echo_drv 64 1000 (PBytes [1, 2]) idle)) =
     [WritetoMem 64 1000 [1, 2]] \<and>
   calls (snd (read_bytes echo_drv 64 1000 3 idle)) = [ReadfromMem 64 1000 3] \<and>
   calls (snd (read_bytes dead_drv 64 (- 5) 3 idle)) = [ReadfromMem 64 (- 5) 3] \<and>
   fst (read_bytes dead_drv 64 (- 5) 3 idle) = Inl (OSError 19)"
proof -
  have data: "as_bytes (PBytes [1, 2]) = Inr [1, 2]"
    by (simp add: as_bytes_def)
  have word: "map word_of_int (word_data ''big'' 0x1234) = [0x12, 0x34 :: byte]"
    by (simp add: word_data_def drop_bit_eq_div)
  have dead: "fst (read_bytes dead_drv 64 (- 5) 3 idle) = Inl (OSError 19)"
    by (simp add: read_bytes_def check_addr_def i2c_readfrom_mem_def dead_drv_def)
  have idle: "calls idle = []"
    by (simp add: idle_def)
  show ?thesis
    using register_address_unchecked [where a = 64 and r = 1000 and drv = echo_drv and s = idle
        and v = 255 and w = "0x1234" and bo = "''big''" and data = "PBytes [1, 2]"
        and bs = "[1, 2]" and n = 3]
      register_address_unchecked [where a = 64 and r = "- 5" and drv = dead_drv and s = idle
        and n = 3]
    by (simp add: data word dead idle)
qed

section \<open>Order of the checks\<close>

text \<open>
  Claim C9. In \<^verbatim>\<open>write_byte\<close> and \<^verbatim>\<open>write_word\<close> the device-address check runs
  before the value check: with the address outside \<open>0..127\<close> and the value outside its
  range, the error raised is the one of \<^verbatim>\<open>_check_addr\<close>, not the one of the value
  check.
\<close>

theorem address_check_first:
  assumes "\<not> (0 \<le> a \<and> a \<le> 127)"
  shows
    "(\<not> (0 \<le> v \<and> v \<le> 255) \<longrightarrow>
        write_byte drv a r v s = (Inl (ValueError AddrRange), s) \<and>
        fst (write_byte drv a r v s) \<noteq> Inl (ValueError ByteRange)) \<and>
     (\<not> (0 \<le> w \<and> w \<le> 65535) \<longrightarrow>
        write_word drv a r w bo s = (Inl (ValueError AddrRange), s) \<and>
        fst (write_word drv a r w bo s) \<noteq> Inl (ValueError WordRange))"
  by (simp add: write_byte_def write_word_def check_addr_bad [OF assms])

theorem address_check_first_witness:
  "write_byte echo_drv 200 1 300 idle = (Inl (ValueError AddrRange), idle) \<and>
   write_word echo_drv 200 1 70000 ''big'' idle = (Inl (ValueError AddrRange), idle)"
  using address_check_first [where a = 200 and v = 300 and w = 70000 and drv = echo_drv
      and r = 1 and s = idle and bo = "''big''"]
  by simp

section \<open>Byte-order tags\<close>

text \<open>
  Claim C10. Every byte-order tag other than \<^verbatim>\<open>'big'\<close> makes \<^verbatim>\<open>write_word\<close> and
  \<^verbatim>\<open>read_word\<close> behave exactly as under \<^verbatim>\<open>'little'\<close>, and no tag raises a
  validation error (\<^verbatim>\<open>ValueError\<close> or \<^verbatim>\<open>TypeError\<close>) on inputs that pass the
  other checks.
\<close>

theorem byteorder_not_big_is_little:
  assumes "bo \<noteq> ''big''"
  shows
    "write_word drv a r v bo s = write_word drv a r v ''little'' s \<and>
     read_word drv a r bo s = read_word drv a r ''little'' s \<and>
     (0 \<le> a \<and> a \<le> 127 \<and> 0 \<le> v \<and> v \<le> 65535 \<longrightarrow>
        (\<forall>m. fst (write_word drv a r v bo s) \<noteq> Inl (ValueError m)) \<and>
        fst (write_word drv a r v bo s) \<noteq> Inl TypeError) \<and>
     (0 \<le> a \<and> a \<le> 127 \<longrightarrow>
        (\<forall>m. fst (read_word drv a r bo s) \<noteq> Inl (ValueError m)) \<and>
        fst (read_word drv a r bo s) \<noteq> Inl TypeError)"
proof (intro conjI impI)
  have wd: "word_data bo v = word_data ''little'' v"
    using assms by (simp add: word_data_def)
  have dw: "data_word bo bs = data_word ''little'' bs" for bs
    using assms by (simp add: data_word_def)
  show "write_word drv a r v bo s = write_word drv a r v ''little'' s"
    unfolding write_word_def wd by (rule refl)
  show "read_word drv a r bo s = read_word drv a r ''little'' s"
    unfolding read_word_def dw by (rule refl)
  {
    assume ok: "0 \<le> a \<and> a \<le> 127 \<and> 0 \<le> v \<and> v \<le> 65535"
    show "\<forall>m. fst (write_word drv a r v bo s) \<noteq> Inl (ValueError m)"
      using ok by (auto simp: write_word_valid split: sum.splits)
    show "fst (write_word drv a r v bo s) \<noteq> Inl TypeError"
      using ok by (auto simp: write_word_valid split: sum.splits)
  }
  {
    assume ok: "0 \<le> a \<and> a \<le> 127"
    show "\<forall>m. fst (read_word drv a r bo s) \<noteq> Inl (ValueError m)"
      using ok by (auto simp: read_word_valid split: sum.splits dest: data_word_msg)
    show "fst (read_word drv a r bo s) \<noteq> Inl TypeError"
      using ok by (auto simp: read_word_valid split: sum.splits dest: data_word_msg)
  }
qed

theorem byteorder_not_big_is_little_witness:
  "write_word echo_drv 64 2 0x1234 ''BIG'' idle =
     (Inr (), \<lparr>calls = [WritetoMem 64 2 [0x34, 0x12]], stdout = []\<rparr>) \<and>
   read_word echo_drv 64 2 ''BIG'' \<lparr>calls = [WritetoMem 64 2 [0x34, 0x12]], stdout = []\<rparr> =
     (Inr 0x1234,
      \<lparr>calls = [WritetoMem 64 2 [0x34, 0x12], ReadfromMem 64 2 2], stdout = []\<rparr>)"
proof -
  have w: "write_word echo_drv 64 2 0x1234 ''little'' idle =
      (Inr (), \<lparr>calls = [WritetoMem 64 2 [0x34, 0x12]], stdout = []\<rparr>)"
    by code_simp
  have r: "read_word echo_drv 64 2 ''little'' \<lparr>calls = [WritetoMem 64 2 [0x34, 0x12]], stdout = []\<rparr> =
      (Inr 0x1234,
       \<lparr>calls = [WritetoMem 64 2 [0x34, 0x12], ReadfromMem 64 2 2], stdout = []\<rparr>)"
    by code_simp
  show ?thesis
    using byteorder_not_big_is_little [where bo = "''BIG''" and drv = echo_drv and a = 64
        and r = 2 and v = "0x1234" and s = idle]
      byteorder_not_big_is_little [where bo = "''BIG''" and drv = echo_drv and a = 64
        and r = 2 and s = "\<lparr>calls = [WritetoMem 64 2 [0x34, 0x12]], stdout = []\<rparr>"]
    by (simp add: w r)
qed

end
